theory Spec2Isabelle
  imports Main "HOL-Library.Word"
begin

section \<open>Common data\<close>

text \<open>
  Go byte slices are lists of 8-bit words. A Go \<open>error\<close> built with \<open>errors.New\<close> is
  its message; a run-time panic (nil dereference, slice out of range) is kept apart
  from the errors a function returns.
\<close>

type_synonym bytes = "8 word list"

datatype error = Err string | Panic string

text \<open>
  Modelled from the spec: the package \<open>common/id\<close> is not part of the sources at hand.
  An ID is a 32-byte big-endian integer; \<open>FromBytes\<close> reads it from bytes and
  \<open>Bytes\<close> writes it back as 32 bytes.
\<close>

type_synonym ID = nat

definition FromBytes :: "bytes \<Rightarrow> ID" where
  "FromBytes bs = foldl (\<lambda>a b. a * 256 + unat b) 0 bs"

definition Bytes :: "ID \<Rightarrow> bytes" where
  "Bytes i = map (\<lambda>k. word_of_nat (i div 256 ^ (31 - k))) [0..<32]"

section \<open>Documents (documents.proto)\<close>

record Envelope =
  EntryKey :: bytes
  env_AuthorPublicKey :: bytes
  env_ReaderPublicKey :: bytes

record Page =
  page_AuthorPublicKey :: bytes
  Index :: "32 word"
  Ciphertext :: bytes
  CiphertextMac :: bytes

record PageKeys =
  Keys :: "bytes list"

datatype Entry_Contents = Entry_Page Page | Entry_PageKeys PageKeys

record Entry =
  entry_AuthorPublicKey :: bytes
  entry_Contents :: Entry_Contents
  CreatedTime :: "64 word"
  MetadataCiphertext :: bytes
  MetadataCiphertextMac :: bytes

text \<open>The \<open>oneof contents\<close> of a Document may be unset, which Go reads as nil.\<close>

datatype Document_Contents =
  Document_Envelope Envelope | Document_Entry Entry | Document_Page Page

record Document =
  Contents :: "Document_Contents option"

section \<open>The key-value store wrapper (db/kvdb.go)\<close>

text \<open>
  \<open>*RocksDB\<close> is a pointer, so a receiver is an option; its field \<open>rdb\<close> is a pointer
  to the handle of the external library, again an option. The library's own
  operations on a handle are parameters: \<open>GetBytes\<close> is only ever reached with a
  handle that is not nil, \<open>Put\<close> and \<open>Delete\<close> receive whatever \<open>rdb\<close> holds. The read
  and write options play no part in the control flow and are left out.
\<close>

record 'h RocksDB =
  rdb :: "'h option"

definition RocksDB_Get ::
  "('h \<Rightarrow> bytes \<Rightarrow> error + bytes) \<Rightarrow> 'h RocksDB option \<Rightarrow> bytes \<Rightarrow> error + bytes" where
  "RocksDB_Get GetBytes db key =
     (case db of
        None \<Rightarrow> Inl (Err ''RocksDB struct is nil!'')
      | Some d \<Rightarrow>
          (case rdb d of
             None \<Rightarrow> Inl (Err ''rdb is nil!'')
           | Some h \<Rightarrow> GetBytes h key))"

definition RocksDB_Put ::
  "('h option \<Rightarrow> bytes \<Rightarrow> bytes \<Rightarrow> error + 'h) \<Rightarrow> 'h RocksDB option \<Rightarrow> bytes \<Rightarrow> bytes
     \<Rightarrow> error + 'h" where
  "RocksDB_Put lib_Put db key val =
     (case db of
        None \<Rightarrow> Inl (Panic ''nil pointer dereference'')
      | Some d \<Rightarrow> lib_Put (rdb d) key val)"

definition RocksDB_Delete ::
  "('h option \<Rightarrow> bytes \<Rightarrow> error + 'h) \<Rightarrow> 'h RocksDB option \<Rightarrow> bytes \<Rightarrow> error + 'h" where
  "RocksDB_Delete lib_Delete db key =
     (case db of
        None \<Rightarrow> Inl (Panic ''nil pointer dereference'')
      | Some d \<Rightarrow> lib_Delete (rdb d) key)"

section \<open>The entry packer (author/io/pack/entry.go)\<close>

record EncryptedMetadata =
  enc_Ciphertext :: bytes
  enc_CiphertextMAC :: bytes

text \<open>
  \<open>storage.DocumentLoader\<close> is an interface: \<open>Load\<close> gives an error, or a document
  pointer that may be nil. \<open>time.Now().Unix()\<close> is the parameter \<open>now\<close>.
\<close>

type_synonym DocumentLoader = "ID \<Rightarrow> error + Document option"

definition newSinglePageEntry ::
  "64 word \<Rightarrow> bytes \<Rightarrow> ID \<Rightarrow> EncryptedMetadata \<Rightarrow> DocumentLoader \<Rightarrow> error + Entry" where
  "newSinglePageEntry now authorPub pageKey encMeta docL =
     (case docL pageKey of
        Inl e \<Rightarrow> Inl e
      | Inr None \<Rightarrow> Inl (Panic ''nil pointer dereference'')
      | Inr (Some pageDoc) \<Rightarrow>
          (case Contents pageDoc of
             Some (Document_Page p) \<Rightarrow>
               Inr \<lparr>entry_AuthorPublicKey = authorPub,
                    entry_Contents = Entry_Page p,
                    CreatedTime = now,
                    MetadataCiphertext = enc_Ciphertext encMeta,
                    MetadataCiphertextMac = enc_CiphertextMAC encMeta\<rparr>
           | _ \<Rightarrow> Inl (Err ''not a page'')))"

definition newMultiPageEntry ::
  "64 word \<Rightarrow> bytes \<Rightarrow> ID list \<Rightarrow> EncryptedMetadata \<Rightarrow> error + Entry" where
  "newMultiPageEntry now authorPub pageKeys encMeta =
     Inr \<lparr>entry_AuthorPublicKey = authorPub,
          entry_Contents = Entry_PageKeys \<lparr>Keys = map Bytes pageKeys\<rparr>,
          CreatedTime = now,
          MetadataCiphertext = enc_Ciphertext encMeta,
          MetadataCiphertextMac = enc_CiphertextMAC encMeta\<rparr>"

definition newEntryDoc ::
  "64 word \<Rightarrow> bytes \<Rightarrow> ID list \<Rightarrow> EncryptedMetadata \<Rightarrow> DocumentLoader \<Rightarrow> error + Document" where
  "newEntryDoc now authorPub pageIDs encMeta docL =
     (case (if length pageIDs = 1
            then newSinglePageEntry now authorPub (pageIDs ! 0) encMeta docL
            else newMultiPageEntry now authorPub pageIDs encMeta) of
        Inl err \<Rightarrow> Inl err
      | Inr entry \<Rightarrow> Inr \<lparr>Contents = Some (Document_Entry entry)\<rparr>)"

text \<open>What kind of contents an assembled entry document carries.\<close>

definition entryContentsOf :: "Document \<Rightarrow> Entry_Contents option" where
  "entryContentsOf doc =
     (case Contents doc of
        Some (Document_Entry e) \<Rightarrow> Some (entry_Contents e)
      | _ \<Rightarrow> None)"

section \<open>Wire messages of the librarian service\<close>

record RequestMetadata =
  RequestId :: bytes
  PubKey :: bytes

record ResponseMetadata =
  rp_RequestId :: bytes

record PeerAddress =
  PeerId :: bytes
  PeerName :: string
  Ip :: string
  Port :: "32 word"

record PingResponse =
  Message :: string

record IntroduceRequest =
  intro_Metadata :: RequestMetadata
  intro_Self :: PeerAddress
  intro_NumPeers :: "32 word"

record IntroduceResponse =
  introrp_Metadata :: ResponseMetadata
  introrp_Self :: PeerAddress
  introrp_Peers :: "PeerAddress list"

record FindRequest =
  find_Metadata :: RequestMetadata
  find_Key :: bytes
  find_NumPeers :: "32 word"

record FindResponse =
  findrp_Metadata :: ResponseMetadata
  findrp_Value :: "Document option"
  findrp_Peers :: "PeerAddress list"

record StoreRequest =
  store_Metadata :: RequestMetadata
  store_Key :: bytes
  store_Value :: Document

record StoreResponse =
  storerp_Metadata :: ResponseMetadata

record GetRequest =
  get_Metadata :: RequestMetadata
  get_Key :: bytes

record GetResponse =
  getrp_Metadata :: ResponseMetadata
  getrp_Value :: "Document option"

record PutRequest =
  put_Metadata :: RequestMetadata
  put_Key :: bytes
  put_Value :: Document

datatype PutOperation = STORED | LEFT_EXISTING

record PutResponse =
  putrp_Metadata :: ResponseMetadata
  putrp_Operation :: PutOperation
  putrp_NReplicas :: "32 word"

record Subscription =
  AuthorPublicKeys :: bytes
  ReaderPublicKeys :: bytes

record SubscribeRequest =
  sub_Metadata :: RequestMetadata
  sub_Subscription :: Subscription

record Publication =
  pub_EntryKey :: bytes
  pub_AuthorPublicKey :: bytes
  pub_ReaderPublicKey :: bytes

record KeyedPub =
  kp_Key :: ID
  kp_Value :: Publication

record SubscribeResponse =
  subrp_Metadata :: ResponseMetadata
  subrp_Key :: bytes
  subrp_Value :: Publication

text \<open>The \<open>proto.Message\<close> handed to the request verifier.\<close>

datatype message =
  Msg_Introduce IntroduceRequest
| Msg_Find FindRequest
| Msg_Store StoreRequest
| Msg_Get GetRequest
| Msg_Put PutRequest
| Msg_Subscribe SubscribeRequest

text \<open>
  The incoming context, as far as the verifier reads it: the signed token under the
  metadata key \<open>signature\<close>, if there is one.
\<close>

type_synonym ctx = "string option"

section \<open>Peers, searches and stores as the handlers see them\<close>

text \<open>
  Modelled from the spec: the packages \<open>peer\<close>, \<open>search\<close> and \<open>store\<close> are not part of
  the sources at hand. A peer record has an id, a name and a public address;
  \<open>ToAPI\<close> writes it as a \<open>PeerAddress\<close>.
\<close>

record Peer =
  peer_ID :: ID
  peer_Name :: string
  peer_Ip :: string
  peer_Port :: "32 word"

definition ToAPI :: "Peer \<Rightarrow> PeerAddress" where
  "ToAPI p = \<lparr>PeerId = Bytes (peer_ID p), PeerName = peer_Name p,
              Ip = peer_Ip p, Port = peer_Port p\<rparr>"

definition ToAPIs :: "Peer list \<Rightarrow> PeerAddress list" where
  "ToAPIs ps = map ToAPI ps"

text \<open>
  A search, reduced to what \<open>Get\<close> and \<open>Put\<close> read from it: the parameters
  \<open>Concurrency\<close> and \<open>NClosestResponses\<close>, \<open>Result.Value\<close>, the peers of
  \<open>Result.Closest\<close>, and the values of its four predicates, whose code is in
  the absent package and which are therefore taken as given.
\<close>

record Search =
  search_Concurrency :: nat
  search_NClosestResponses :: nat
  search_Value :: "Document option"
  search_Closest_Peers :: "Peer list"
  search_FoundValue :: bool
  search_FoundClosestPeers :: bool
  search_Errored :: bool
  search_Exhausted :: bool

record Store =
  store_Search :: Search
  store_Responded :: "Peer list"
  store_Exists :: bool
  store_Errored :: bool
  store_Exhausted :: bool

text \<open>
  Modelled from the spec: \<open>Store.Stored\<close> is in the absent package \<open>store\<close>. It holds
  exactly when the number of replicas that responded has reached
  \<open>NClosestResponses\<close>.
\<close>

definition Stored :: "Store \<Rightarrow> bool" where
  "Stored s \<longleftrightarrow> search_NClosestResponses (store_Search s) \<le> length (store_Responded s)"

section \<open>The librarian (librarian/server/server.go)\<close>

text \<open>
  The fields of \<open>Librarian\<close> that the handlers use. Its collaborators are Go
  interfaces whose implementations are outside the sources at hand, so each method
  is a function field: the request verifier, the key and key/value checkers, the
  peer \<open>Fromer\<close>, the document storer/loader over a store of type \<open>'db\<close>, the routing
  table operations over a table of type \<open>'rt\<close>, the searcher and the storer.
  \<open>rt_Sample\<close> receives the seed of the random source, which determines
  \<open>rand.New(rand.NewSource(seed))\<close>. \<open>record_Request\<close> is
  \<open>l.record(requesterID, peer.Request, peer.Success)\<close>, \<open>subscribeTo_Send\<close> is
  \<open>l.subscribeTo.Send(api.GetPublication(key, value))\<close>, \<open>newSearch\<close> and \<open>newStore\<close>
  are \<open>search.NewSearch\<close> and \<open>store.NewStore\<close> with the configured parameters.
  \<open>subscribeFrom_New\<close> is \<open>l.subscribeFrom.New()\<close>: an error, or the publications
  its channel delivers before it is closed, with a \<open>done\<close> channel still open.
  \<open>sha256\<close> is the hash function of the standard library.
\<close>

record ('rt, 'db) Librarian =
  selfID :: ID
  apiSelf :: PeerAddress
  rqv_Verify :: "ctx \<Rightarrow> message \<Rightarrow> RequestMetadata \<Rightarrow> error option"
  kc_Check :: "bytes \<Rightarrow> error option"
  kvc_Check :: "bytes \<Rightarrow> Document \<Rightarrow> error option"
  fromer_FromAPI :: "PeerAddress \<Rightarrow> Peer"
  documentSL_Load :: "'db \<Rightarrow> ID \<Rightarrow> error + Document option"
  documentSL_Store :: "'db \<Rightarrow> ID \<Rightarrow> Document \<Rightarrow> error option \<times> 'db"
  subscribeTo_Send :: "bytes \<Rightarrow> Document \<Rightarrow> error option"
  rt_Push :: "'rt \<Rightarrow> Peer \<Rightarrow> 'rt"
  rt_Peak :: "'rt \<Rightarrow> ID \<Rightarrow> nat \<Rightarrow> Peer list"
  rt_Sample :: "'rt \<Rightarrow> nat \<Rightarrow> 64 word \<Rightarrow> Peer list"
  record_Request :: "'rt \<Rightarrow> ID \<Rightarrow> 'rt"
  newSearch :: "ID \<Rightarrow> ID \<Rightarrow> Search"
  searcher_Search :: "Search \<Rightarrow> Peer list \<Rightarrow> error + Search"
  newStore :: "ID \<Rightarrow> ID \<Rightarrow> Document \<Rightarrow> Store"
  storer_Store :: "Store \<Rightarrow> Peer list \<Rightarrow> error + Store"
  subscribeFrom_New :: "error + KeyedPub list"
  sha256 :: "bytes \<Rightarrow> bytes"

text \<open>What a handler can change: the routing table and the document store.\<close>

record ('rt, 'db) node =
  rt :: 'rt
  db :: 'db

text \<open>
  Modelled from the spec: \<open>NewResponseMetadata\<close>, \<open>checkRequest\<close>,
  \<open>checkRequestAndKey\<close> and \<open>checkRequestAndKeyValue\<close> are methods of \<open>Librarian\<close>
  defined outside the sources at hand. The response metadata echoes the request id
  (its fresh response id is not modelled). \<open>checkRequest\<close> runs the request verifier
  and then gives the caller's peer ID, the SHA-256 of the public key;
  \<open>checkRequestAndKey\<close> adds the key checker, \<open>checkRequestAndKeyValue\<close> the
  key/value checker.
\<close>

definition NewResponseMetadata :: "RequestMetadata \<Rightarrow> ResponseMetadata" where
  "NewResponseMetadata m = \<lparr>rp_RequestId = RequestId m\<rparr>"

definition checkRequest ::
  "('rt, 'db) Librarian \<Rightarrow> ctx \<Rightarrow> message \<Rightarrow> RequestMetadata \<Rightarrow> error + ID" where
  "checkRequest l c rq meta =
     (case rqv_Verify l c rq meta of
        Some err \<Rightarrow> Inl err
      | None \<Rightarrow> Inr (FromBytes (sha256 l (PubKey meta))))"

definition checkRequestAndKey ::
  "('rt, 'db) Librarian \<Rightarrow> ctx \<Rightarrow> message \<Rightarrow> RequestMetadata \<Rightarrow> bytes \<Rightarrow> error + ID" where
  "checkRequestAndKey l c rq meta key =
     (case checkRequest l c rq meta of
        Inl err \<Rightarrow> Inl err
      | Inr requesterID \<Rightarrow>
          (case kc_Check l key of
             Some err \<Rightarrow> Inl err
           | None \<Rightarrow> Inr requesterID))"

definition checkRequestAndKeyValue ::
  "('rt, 'db) Librarian \<Rightarrow> ctx \<Rightarrow> message \<Rightarrow> RequestMetadata \<Rightarrow> bytes \<Rightarrow> Document
     \<Rightarrow> error + ID" where
  "checkRequestAndKeyValue l c rq meta key val =
     (case checkRequest l c rq meta of
        Inl err \<Rightarrow> Inl err
      | Inr requesterID \<Rightarrow>
          (case kvc_Check l key val of
             Some err \<Rightarrow> Inl err
           | None \<Rightarrow> Inr requesterID))"

text \<open>
  Modelled from the spec: the checkers of the absent package \<open>storage\<close>. The key
  checker rejects keys whose length is not 32 bytes; the key/value checker
  also rejects a value whose serialised form does not hash to the key.
  \<open>serialize\<close> is the protobuf marshaller.
\<close>

definition ExactLengthChecker :: "nat \<Rightarrow> bytes \<Rightarrow> error option" where
  "ExactLengthChecker n key =
     (if length key \<noteq> n then Some (Err ''invalid key length'') else None)"

definition HashKeyValueChecker ::
  "(bytes \<Rightarrow> bytes) \<Rightarrow> (Document \<Rightarrow> bytes) \<Rightarrow> bytes \<Rightarrow> Document \<Rightarrow> error option" where
  "HashKeyValueChecker sha serialize key val =
     (case ExactLengthChecker 32 key of
        Some err \<Rightarrow> Some err
      | None \<Rightarrow>
          (if sha (serialize val) \<noteq> key then Some (Err ''key does not equal hash of value'')
           else None))"

text \<open>\<open>binary.BigEndian.Uint64\<close> on a slice of (at least) eight bytes.\<close>

definition BigEndian_Uint64 :: "bytes \<Rightarrow> 64 word" where
  "BigEndian_Uint64 b = foldl (\<lambda>a x. a * 256 + ucast x) 0 (take 8 b)"

definition Ping :: "('rt, 'db) Librarian \<Rightarrow> ctx \<Rightarrow> unit \<Rightarrow> error + PingResponse" where
  "Ping l c rq = Inr \<lparr>Message = ''pong''\<rparr>"

text \<open>
  \<open>Introduce\<close>. The slice expression \<open>RequestId[:8]\<close> panics on a request id
  shorter than eight bytes; by then the requester has been recorded and pushed.
\<close>

definition Introduce ::
  "('rt, 'db) Librarian \<Rightarrow> ctx \<Rightarrow> IntroduceRequest \<Rightarrow> ('rt, 'db) node
     \<Rightarrow> (error + IntroduceResponse) \<times> ('rt, 'db) node" where
  "Introduce l c rq st =
     (case checkRequest l c (Msg_Introduce rq) (intro_Metadata rq) of
        Inl err \<Rightarrow> (Inl err, st)
      | Inr requesterID \<Rightarrow>
          (let requester = fromer_FromAPI l (intro_Self rq) in
           if peer_ID requester \<noteq> requesterID
           then (Inl (Err ''stated client peer ID does not match signature''), st)
           else
             (let st1 = st\<lparr>rt := record_Request l (rt st) requesterID\<rparr>;
                  st2 = st1\<lparr>rt := rt_Push l (rt st1) requester\<rparr>
              in if length (RequestId (intro_Metadata rq)) < 8
                 then (Inl (Panic ''slice bounds out of range''), st2)
                 else
                   (let seed = BigEndian_Uint64 (take 8 (RequestId (intro_Metadata rq)));
                        peers = rt_Sample l (rt st2) (unat (intro_NumPeers rq)) seed
                    in (Inr \<lparr>introrp_Metadata = NewResponseMetadata (intro_Metadata rq),
                             introrp_Self = apiSelf l,
                             introrp_Peers = ToAPIs peers\<rparr>, st2)))))"

definition Find ::
  "('rt, 'db) Librarian \<Rightarrow> ctx \<Rightarrow> FindRequest \<Rightarrow> ('rt, 'db) node
     \<Rightarrow> (error + FindResponse) \<times> ('rt, 'db) node" where
  "Find l c rq st =
     (case checkRequestAndKey l c (Msg_Find rq) (find_Metadata rq) (find_Key rq) of
        Inl err \<Rightarrow> (Inl err, st)
      | Inr requesterID \<Rightarrow>
          (let st1 = st\<lparr>rt := record_Request l (rt st) requesterID\<rparr> in
           case documentSL_Load l (db st1) (FromBytes (find_Key rq)) of
             Inl err \<Rightarrow> (Inl err, st1)
           | Inr (Some v) \<Rightarrow>
               (Inr \<lparr>findrp_Metadata = NewResponseMetadata (find_Metadata rq),
                     findrp_Value = Some v,
                     findrp_Peers = []\<rparr>, st1)
           | Inr None \<Rightarrow>
               (let key = FromBytes (find_Key rq);
                    closest = rt_Peak l (rt st1) key (unat (find_NumPeers rq))
                in (Inr \<lparr>findrp_Metadata = NewResponseMetadata (find_Metadata rq),
                         findrp_Value = None,
                         findrp_Peers = ToAPIs closest\<rparr>, st1))))"

definition Store ::
  "('rt, 'db) Librarian \<Rightarrow> ctx \<Rightarrow> StoreRequest \<Rightarrow> ('rt, 'db) node
     \<Rightarrow> (error + StoreResponse) \<times> ('rt, 'db) node" where
  "Store l c rq st =
     (case checkRequestAndKeyValue l c (Msg_Store rq) (store_Metadata rq) (store_Key rq)
             (store_Value rq) of
        Inl err \<Rightarrow> (Inl err, st)
      | Inr requesterID \<Rightarrow>
          (let st1 = st\<lparr>rt := record_Request l (rt st) requesterID\<rparr> in
           case documentSL_Store l (db st1) (FromBytes (store_Key rq)) (store_Value rq) of
             (Some err, db') \<Rightarrow> (Inl err, st1\<lparr>db := db'\<rparr>)
           | (None, db') \<Rightarrow>
               (case subscribeTo_Send l (store_Key rq) (store_Value rq) of
                  Some err \<Rightarrow> (Inl err, st1\<lparr>db := db'\<rparr>)
                | None \<Rightarrow>
                    (Inr \<lparr>storerp_Metadata = NewResponseMetadata (store_Metadata rq)\<rparr>,
                     st1\<lparr>db := db'\<rparr>))))"

definition Get ::
  "('rt, 'db) Librarian \<Rightarrow> ctx \<Rightarrow> GetRequest \<Rightarrow> ('rt, 'db) node
     \<Rightarrow> (error + GetResponse) \<times> ('rt, 'db) node" where
  "Get l c rq st =
     (case checkRequestAndKey l c (Msg_Get rq) (get_Metadata rq) (get_Key rq) of
        Inl err \<Rightarrow> (Inl err, st)
      | Inr requesterID \<Rightarrow>
          (let st1 = st\<lparr>rt := record_Request l (rt st) requesterID\<rparr>;
               key = FromBytes (get_Key rq);
               s0 = newSearch l (selfID l) key;
               seeds = rt_Peak l (rt st1) key (search_Concurrency s0)
           in case searcher_Search l s0 seeds of
                Inl err \<Rightarrow> (Inl err, st1)
              | Inr s \<Rightarrow>
                  (let st2 = st1\<lparr>rt := foldl (rt_Push l) (rt st1) (search_Closest_Peers s)\<rparr>
                   in if search_FoundValue s
                      then (Inr \<lparr>getrp_Metadata = NewResponseMetadata (get_Metadata rq),
                                getrp_Value = search_Value s\<rparr>, st2)
                      else if search_FoundClosestPeers s
                      then (Inr \<lparr>getrp_Metadata = NewResponseMetadata (get_Metadata rq),
                                getrp_Value = None\<rparr>, st2)
                      else if search_Errored s
                      then (Inl (Err ''search for key errored''), st2)
                      else if search_Exhausted s
                      then (Inl (Err ''search for key exhausted''), st2)
                      else (Inl (Err ''unexpected search result''), st2))))"

definition Put ::
  "('rt, 'db) Librarian \<Rightarrow> ctx \<Rightarrow> PutRequest \<Rightarrow> ('rt, 'db) node
     \<Rightarrow> (error + PutResponse) \<times> ('rt, 'db) node" where
  "Put l c rq st =
     (case checkRequestAndKeyValue l c (Msg_Put rq) (put_Metadata rq) (put_Key rq)
             (put_Value rq) of
        Inl err \<Rightarrow> (Inl err, st)
      | Inr requesterID \<Rightarrow>
          (let st1 = st\<lparr>rt := record_Request l (rt st) requesterID\<rparr>;
               key = FromBytes (put_Key rq);
               s0 = newStore l (selfID l) key (put_Value rq);
               seeds = rt_Peak l (rt st1) key (search_Concurrency (store_Search s0))
           in case storer_Store l s0 seeds of
                Inl err \<Rightarrow> (Inl err, st1)
              | Inr s \<Rightarrow>
                  (let st2 = st1\<lparr>rt := foldl (rt_Push l) (rt st1) (store_Responded s)\<rparr>
                   in if Stored s
                      then (Inr \<lparr>putrp_Metadata = NewResponseMetadata (put_Metadata rq),
                                putrp_Operation = STORED,
                                putrp_NReplicas = word_of_nat (length (store_Responded s))\<rparr>,
                            st2)
                      else if store_Exists s
                      then (Inr \<lparr>putrp_Metadata = NewResponseMetadata (put_Metadata rq),
                                putrp_Operation = LEFT_EXISTING,
                                putrp_NReplicas = word_of_nat (length (store_Responded s))\<rparr>,
                            st2)
                      else if store_Errored s
                      then (Inl (Err ''received error during search or store operations''), st2)
                      else if store_Exhausted s
                      then (Inl (Err ''store for key exhausted''), st2)
                      else (Inl (Err ''unexpected store result''), st2))))"

text \<open>
  \<open>maybeSend\<close>. A Bloom filter of the external library is its membership test. The
  stream \<open>from\<close> has some state of type \<open>'s\<close> and a \<open>Send\<close> that may fail; \<open>done\<close> tells
  whether the channel \<open>done\<close> is closed, and closing it twice panics.
\<close>

type_synonym BloomFilter = "bytes \<Rightarrow> bool"

definition maybeSend ::
  "('s \<Rightarrow> SubscribeResponse \<Rightarrow> error option \<times> 's) \<Rightarrow> KeyedPub \<Rightarrow> BloomFilter \<Rightarrow> BloomFilter
     \<Rightarrow> 's \<Rightarrow> ResponseMetadata \<Rightarrow> bool \<Rightarrow> error option \<times> 's \<times> bool" where
  "maybeSend from_Send pub authorFilter readerFilter from responseMetadata done =
     (if \<not> authorFilter (pub_AuthorPublicKey (kp_Value pub)) then (None, from, done)
      else if \<not> readerFilter (pub_ReaderPublicKey (kp_Value pub)) then (None, from, done)
      else
        (let rp = \<lparr>subrp_Metadata = responseMetadata,
                   subrp_Key = Bytes (kp_Key pub),
                   subrp_Value = kp_Value pub\<rparr>
         in case from_Send from rp of
              (Some err, from') \<Rightarrow>
                (if done then (Some (Panic ''close of closed channel''), from', done)
                 else (Some err, from', True))
            | (None, from') \<Rightarrow> (None, from', done)))"

text \<open>The loop \<open>for pub := range pubs\<close> of \<open>Subscribe\<close>, which returns at the first error.\<close>

fun sendPubs ::
  "('s \<Rightarrow> SubscribeResponse \<Rightarrow> error option \<times> 's) \<Rightarrow> KeyedPub list \<Rightarrow> BloomFilter
     \<Rightarrow> BloomFilter \<Rightarrow> 's \<Rightarrow> ResponseMetadata \<Rightarrow> bool \<Rightarrow> error option \<times> 's \<times> bool" where
  "sendPubs from_Send [] authorFilter readerFilter from responseMetadata done =
     (None, from, done)"
| "sendPubs from_Send (pub # pubs) authorFilter readerFilter from responseMetadata done =
     (case maybeSend from_Send pub authorFilter readerFilter from responseMetadata done of
        (Some err, from', done') \<Rightarrow> (Some err, from', done')
      | (None, from', done') \<Rightarrow>
          sendPubs from_Send pubs authorFilter readerFilter from' responseMetadata done')"

text \<open>
  \<open>Subscribe\<close>. \<open>filter_FromAPI\<close> is \<open>subscribe.FromAPI\<close>, which decodes a filter or
  fails. After the loop the channel \<open>done\<close> is closed if it is not yet.
\<close>

definition Subscribe ::
  "('rt, 'db) Librarian \<Rightarrow> (bytes \<Rightarrow> error + BloomFilter)
     \<Rightarrow> ('s \<Rightarrow> SubscribeResponse \<Rightarrow> error option \<times> 's) \<Rightarrow> ctx \<Rightarrow> SubscribeRequest \<Rightarrow> 's
     \<Rightarrow> error option \<times> 's \<times> bool" where
  "Subscribe l filter_FromAPI from_Send c rq from =
     (case checkRequest l c (Msg_Subscribe rq) (sub_Metadata rq) of
        Inl err \<Rightarrow> (Some err, from, False)
      | Inr requesterID \<Rightarrow>
          (case filter_FromAPI (AuthorPublicKeys (sub_Subscription rq)) of
             Inl err \<Rightarrow> (Some err, from, False)
           | Inr authorFilter \<Rightarrow>
               (case filter_FromAPI (ReaderPublicKeys (sub_Subscription rq)) of
                  Inl err \<Rightarrow> (Some err, from, False)
                | Inr readerFilter \<Rightarrow>
                    (case subscribeFrom_New l of
                       Inl err \<Rightarrow> (Some err, from, False)
                     | Inr pubs \<Rightarrow>
                         (case sendPubs from_Send pubs authorFilter readerFilter from
                                 (NewResponseMetadata (sub_Metadata rq)) False of
                            (Some err, from', done') \<Rightarrow> (Some err, from', done')
                          | (None, from', done') \<Rightarrow> (None, from', True))))))"

section \<open>The introduction iterator's response processor\<close>

text \<open>
  \<open>Result\<close> of an introduction: the maps \<open>Responded\<close> and \<open>Unqueried\<close> from ID strings
  to peers, the error count and the fatal error. \<open>idString\<close> is \<open>cid.ID.String\<close>,
  whose code is outside the sources at hand, taken as a parameter; \<open>fromer\<close> is the
  processor's \<open>peer.Fromer\<close>.
\<close>

record intro_Result =
  Responded :: "string \<rightharpoonup> Peer"
  Unqueried :: "string \<rightharpoonup> Peer"
  NErrors :: nat
  FatalErr :: "error option"

definition processPeer ::
  "(PeerAddress \<Rightarrow> Peer) \<Rightarrow> (ID \<Rightarrow> string) \<Rightarrow> intro_Result \<Rightarrow> PeerAddress \<Rightarrow> intro_Result" where
  "processPeer fromer idString result pa =
     (let newIDStr = idString (FromBytes (PeerId pa));
          inResponded = (Responded result newIDStr \<noteq> None);
          inUnqueried = (Unqueried result newIDStr \<noteq> None)
      in if \<not> inResponded \<and> \<not> inUnqueried
         then result\<lparr>Unqueried := (Unqueried result)(newIDStr \<mapsto> fromer pa)\<rparr>
         else result)"

definition Process ::
  "(PeerAddress \<Rightarrow> Peer) \<Rightarrow> (ID \<Rightarrow> string) \<Rightarrow> IntroduceResponse \<Rightarrow> intro_Result
     \<Rightarrow> error option \<times> intro_Result" where
  "Process fromer idString rp result =
     (let idStr = idString (FromBytes (PeerId (introrp_Self rp)));
          newPeer = fromer (introrp_Self rp);
          result1 = result\<lparr>Responded := (Responded result)(idStr \<mapsto> newPeer)\<rparr>
      in (None, foldl (processPeer fromer idString) result1 (introrp_Peers rp)))"

section \<open>Fixed collaborators, after the test doubles of the server tests\<close>

text \<open>
  A librarian over a list of peers as routing table and an association list as
  document store. Its verifier accepts every request (\<open>alwaysRequestVerifier\<close>), its
  searcher and storer hand back the search or store they are given
  (\<open>fixedSearcher\<close>, \<open>fixedStorer\<close>), its \<open>subscribeTo\<close> never fails (\<open>fixedTo\<close>). The
  hash is a stand-in that pads or cuts its input to 32 bytes.
\<close>

definition alwaysRequestVerifier :: "ctx \<Rightarrow> message \<Rightarrow> RequestMetadata \<Rightarrow> error option" where
  "alwaysRequestVerifier c msg meta = None"

definition neverRequestVerifier :: "ctx \<Rightarrow> message \<Rightarrow> RequestMetadata \<Rightarrow> error option" where
  "neverRequestVerifier c msg meta = Some (Err ''some verify error'')"

definition testHash :: "bytes \<Rightarrow> bytes" where
  "testHash b = take 32 (b @ replicate 32 0)"

definition testSerialize :: "Document \<Rightarrow> bytes" where
  "testSerialize d = (case Contents d of None \<Rightarrow> [] | Some x \<Rightarrow> [1])"

definition testFromAPI :: "PeerAddress \<Rightarrow> Peer" where
  "testFromAPI pa = \<lparr>peer_ID = FromBytes (PeerId pa), peer_Name = PeerName pa,
                     peer_Ip = Ip pa, peer_Port = Port pa\<rparr>"

definition testSearch :: Search where
  "testSearch = \<lparr>search_Concurrency = 3, search_NClosestResponses = 2,
                  search_Value = None, search_Closest_Peers = [],
                  search_FoundValue = False, search_FoundClosestPeers = False,
                  search_Errored = False, search_Exhausted = True\<rparr>"

definition testStore :: Store where
  "testStore = \<lparr>store_Search = testSearch, store_Responded = [],
                 store_Exists = False, store_Errored = False, store_Exhausted = True\<rparr>"

definition testNewSearch :: "ID \<Rightarrow> ID \<Rightarrow> Search" where
  "testNewSearch self key = testSearch"

definition testNewStore :: "ID \<Rightarrow> ID \<Rightarrow> Document \<Rightarrow> Store" where
  "testNewStore self key v = testStore"

definition fixedSearcher :: "Search \<Rightarrow> Search \<Rightarrow> Peer list \<Rightarrow> error + Search" where
  "fixedSearcher result s seeds = Inr result"

definition fixedStorer :: "Store \<Rightarrow> Store \<Rightarrow> Peer list \<Rightarrow> error + Store" where
  "fixedStorer result s seeds = Inr result"

definition testLoad :: "(ID \<times> Document) list \<Rightarrow> ID \<Rightarrow> error + Document option" where
  "testLoad d k = Inr (map_of d k)"

definition errLoad :: "(ID \<times> Document) list \<Rightarrow> ID \<Rightarrow> error + Document option" where
  "errLoad d k = Inl (Err ''some load error'')"

definition testStoreDoc ::
  "(ID \<times> Document) list \<Rightarrow> ID \<Rightarrow> Document \<Rightarrow> error option \<times> (ID \<times> Document) list" where
  "testStoreDoc d k v = (None, (k, v) # d)"

definition testPush :: "Peer list \<Rightarrow> Peer \<Rightarrow> Peer list" where
  "testPush ps p = ps @ [p]"

definition testPeak :: "Peer list \<Rightarrow> ID \<Rightarrow> nat \<Rightarrow> Peer list" where
  "testPeak ps k n = take n ps"

definition testSample :: "Peer list \<Rightarrow> nat \<Rightarrow> 64 word \<Rightarrow> Peer list" where
  "testSample ps n seed = take n (rotate (unat seed) ps)"

definition testRecord :: "Peer list \<Rightarrow> ID \<Rightarrow> Peer list" where
  "testRecord ps i = ps"

definition testSend :: "bytes \<Rightarrow> Document \<Rightarrow> error option" where
  "testSend k v = None"

definition testLibrarian :: "(Peer list, (ID \<times> Document) list) Librarian" where
  "testLibrarian =
     \<lparr>selfID = 0,
      apiSelf = \<lparr>PeerId = [], PeerName = ''server'', Ip = ''127.0.0.1'', Port = 11000\<rparr>,
      rqv_Verify = alwaysRequestVerifier,
      kc_Check = ExactLengthChecker 32,
      kvc_Check = HashKeyValueChecker testHash testSerialize,
      fromer_FromAPI = testFromAPI,
      documentSL_Load = testLoad,
      documentSL_Store = testStoreDoc,
      subscribeTo_Send = testSend,
      rt_Push = testPush,
      rt_Peak = testPeak,
      rt_Sample = testSample,
      record_Request = testRecord,
      newSearch = testNewSearch,
      searcher_Search = fixedSearcher testSearch,
      newStore = testNewStore,
      storer_Store = fixedStorer testStore,
      subscribeFrom_New = Inr [],
      sha256 = testHash\<rparr>"

definition neverLibrarian :: "(Peer list, (ID \<times> Document) list) Librarian" where
  "neverLibrarian = testLibrarian\<lparr>rqv_Verify := neverRequestVerifier\<rparr>"

definition testMetadata :: RequestMetadata where
  "testMetadata = \<lparr>RequestId = replicate 31 0 @ [7], PubKey = [1, 2, 3]\<rparr>"

definition zeroKey :: bytes where
  "zeroKey = replicate 32 0"

definition testPage :: Page where
  "testPage = \<lparr>page_AuthorPublicKey = [4], Index = 0, Ciphertext = [5, 6],
                CiphertextMac = [7]\<rparr>"

definition testDocument :: Document where
  "testDocument = \<lparr>Contents = Some (Document_Page testPage)\<rparr>"

text \<open>The key of \<open>testDocument\<close> under the stand-in hash.\<close>

definition testKey :: bytes where
  "testKey = 1 # replicate 31 0"

text \<open>A stream that delivers every response (\<open>fixedLibrarianSubscribeServer\<close>).\<close>

definition testStreamSend ::
  "SubscribeResponse list \<Rightarrow> SubscribeResponse \<Rightarrow> error option \<times> SubscribeResponse list" where
  "testStreamSend sent rp = (None, sent @ [rp])"

definition testFilter :: BloomFilter where
  "testFilter b = (b = [1])"

definition testFilterFromAPI :: "bytes \<Rightarrow> error + BloomFilter" where
  "testFilterFromAPI enc = Inr testFilter"

definition testIDString :: "ID \<Rightarrow> string" where
  "testIDString i = replicate i (CHR ''x'')"






text \<open>
  An introduction in which one peer is already unqueried, answered by a response
  that names the responder itself, the known peer and, twice, a new peer.
\<close>

definition paSelf :: PeerAddress where
  "paSelf = \<lparr>PeerId = [1], PeerName = ''responder'', Ip = ''10.0.0.1'', Port = 20100\<rparr>"

definition paKnown :: PeerAddress where
  "paKnown = \<lparr>PeerId = [2], PeerName = ''known'', Ip = ''10.0.0.2'', Port = 20100\<rparr>"

definition paNew :: PeerAddress where
  "paNew = \<lparr>PeerId = [3], PeerName = ''new'', Ip = ''10.0.0.3'', Port = 20100\<rparr>"

definition testIntroResponse :: IntroduceResponse where
  "testIntroResponse =
     \<lparr>introrp_Metadata = \<lparr>rp_RequestId = []\<rparr>, introrp_Self = paSelf,
      introrp_Peers = [paSelf, paKnown, paNew, paNew\<lparr>PeerName := ''again''\<rparr>]\<rparr>"

definition knownPeer :: Peer where
  "knownPeer = \<lparr>peer_ID = 2, peer_Name = ''seen before'', peer_Ip = ''10.0.0.2'',
                 peer_Port = 20100\<rparr>"

definition testIntroResult :: intro_Result where
  "testIntroResult = \<lparr>Responded = Map.empty, Unqueried = [''xx'' \<mapsto> knownPeer],
                       NErrors = 0, FatalErr = None\<rparr>"



definition testPeer :: Peer where
  "testPeer = \<lparr>peer_ID = 9, peer_Name = ''peer'', peer_Ip = ''10.0.0.9'', peer_Port = 20100\<rparr>"

definition testNode :: "(Peer list, (ID \<times> Document) list) node" where
  "testNode = \<lparr>rt = [testPeer], db = []\<rparr>"

section \<open>Theorems\<close>

subsection \<open>Key-value store wrapper\<close>

text \<open>
  C10. \<open>Get\<close> on a nil \<open>*RocksDB\<close> receiver, or on one whose \<open>rdb\<close> handle is nil,
  returns an error for every key and never reaches the library (so it cannot
  panic there), whatever the library's \<open>GetBytes\<close> does. \<open>Put\<close> and \<open>Delete\<close> have no
  such guard: on a nil receiver they dereference it.
\<close>

theorem RocksDB_Get_nil_guarded:
  "RocksDB_Get GetBytes None key = Inl (Err ''RocksDB struct is nil!'')
   \<and> RocksDB_Get GetBytes (Some \<lparr>rdb = None\<rparr>) key = Inl (Err ''rdb is nil!'')
   \<and> RocksDB_Put lib_Put None key val = Inl (Panic ''nil pointer dereference'')
   \<and> RocksDB_Delete lib_Delete None key = Inl (Panic ''nil pointer dereference'')"
  by (simp add: RocksDB_Get_def RocksDB_Put_def RocksDB_Delete_def)

subsection \<open>Entry packer\<close>

text \<open>
  C9. When \<open>newEntryDoc\<close> assembles an entry from a list of page IDs: with exactly
  one page ID, a page document loaded for it from the document store is inlined
  in the entry, and an entry that is returned can only be such an inlined page (a
  failed load, a nil document or a document that is not a page gives no entry);
  with any other number of page IDs the entry always carries the page IDs as a
  \<open>PageKeys\<close> list, in their original order.
\<close>

theorem newEntryDoc_inlines_or_references:
  "(length pageIDs = 1 \<and> docL (pageIDs ! 0) = Inr (Some pageDoc)
      \<and> Contents pageDoc = Some (Document_Page p)
      \<longrightarrow> (\<exists>doc. newEntryDoc now authorPub pageIDs encMeta docL = Inr doc
             \<and> entryContentsOf doc = Some (Entry_Page p)))
   \<and> (length pageIDs = 1 \<and> newEntryDoc now authorPub pageIDs encMeta docL = Inr doc'
      \<longrightarrow> (\<exists>pageDoc' p'. docL (pageIDs ! 0) = Inr (Some pageDoc')
             \<and> Contents pageDoc' = Some (Document_Page p')
             \<and> entryContentsOf doc' = Some (Entry_Page p')))
   \<and> (length pageIDs \<noteq> 1
      \<longrightarrow> (\<exists>doc. newEntryDoc now authorPub pageIDs encMeta docL = Inr doc
             \<and> entryContentsOf doc = Some (Entry_PageKeys \<lparr>Keys = map Bytes pageIDs\<rparr>)))"
  by (auto simp: newEntryDoc_def newSinglePageEntry_def newMultiPageEntry_def entryContentsOf_def
           split: sum.splits option.splits Document_Contents.splits)

theorem newEntryDoc_inlines_or_references_witness:
  "(\<exists>doc. newEntryDoc 0 [] [5] \<lparr>enc_Ciphertext = [], enc_CiphertextMAC = []\<rparr>
            (testLoad [(5, testDocument)]) = Inr doc
        \<and> entryContentsOf doc = Some (Entry_Page testPage))
   \<and> (\<exists>doc. newEntryDoc 0 [] [1, 2] \<lparr>enc_Ciphertext = [], enc_CiphertextMAC = []\<rparr>
            (testLoad []) = Inr doc
        \<and> entryContentsOf doc = Some (Entry_PageKeys \<lparr>Keys = [Bytes 1, Bytes 2]\<rparr>))"
  using newEntryDoc_inlines_or_references [where pageIDs = "[5]"
          and docL = "testLoad [(5, testDocument)]" and pageDoc = testDocument
          and p = testPage and now = 0 and authorPub = "[]"
          and encMeta = "\<lparr>enc_Ciphertext = [], enc_CiphertextMAC = []\<rparr>"]
        newEntryDoc_inlines_or_references [where pageIDs = "[1, 2]"
          and docL = "testLoad []" and now = 0 and authorPub = "[]"
          and encMeta = "\<lparr>enc_Ciphertext = [], enc_CiphertextMAC = []\<rparr>"]
  by (simp add: testLoad_def testDocument_def)

subsection \<open>Store\<close>

text \<open>
  C1. With the hash key/value checker in place, a \<open>Store\<close> request whose value does
  not hash to its key is answered with an error, and the node is left as it was:
  neither the document store nor the routing table changes, because the check
  comes before \<open>documentSL.Store\<close>. This holds whether or not the request verifies.
\<close>

theorem Store_hash_mismatch_rejected:
  assumes "kvc_Check l = HashKeyValueChecker sha serialize"
      and "sha (serialize (store_Value rq)) \<noteq> store_Key rq"
    shows "\<exists>err. Store l c rq st = (Inl err, st)"
  using assms
  by (auto simp: Store_def checkRequestAndKeyValue_def HashKeyValueChecker_def
           split: sum.splits option.splits)

theorem Store_hash_mismatch_rejected_witness:
  "\<exists>err. Store testLibrarian None
      \<lparr>store_Metadata = testMetadata, store_Key = zeroKey, store_Value = testDocument\<rparr>
      testNode = (Inl err, testNode)"
proof -
  let ?rq = "\<lparr>store_Metadata = testMetadata, store_Key = zeroKey, store_Value = testDocument\<rparr>"
  have h1: "kvc_Check testLibrarian = HashKeyValueChecker testHash testSerialize"
    by (simp add: testLibrarian_def)
  have h2: "testHash (testSerialize (store_Value ?rq)) \<noteq> store_Key ?rq"
    by (simp add: testHash_def testSerialize_def testDocument_def zeroKey_def eval_nat_numeral)
  show ?thesis using Store_hash_mismatch_rejected [OF h1 h2] .
qed

subsection \<open>Find\<close>

text \<open>
  C2, as stated, fails: a request can pass the request and key checks and still get
  neither the value nor the closest peers, namely when \<open>documentSL.Load\<close> itself
  fails (as \<open>errDocStorerLoader\<close> of the tests does); \<open>Find\<close> then returns that error.
\<close>

theorem Find_load_error_counterexample:
  "checkRequestAndKey (testLibrarian\<lparr>documentSL_Load := errLoad\<rparr>) None
      (Msg_Find \<lparr>find_Metadata = testMetadata, find_Key = zeroKey, find_NumPeers = 1\<rparr>)
      testMetadata zeroKey = Inr (FromBytes (testHash (PubKey testMetadata)))
   \<and> fst (Find (testLibrarian\<lparr>documentSL_Load := errLoad\<rparr>) None
        \<lparr>find_Metadata = testMetadata, find_Key = zeroKey, find_NumPeers = 1\<rparr> testNode)
     = Inl (Err ''some load error'')"
  by (simp add: Find_def checkRequestAndKey_def checkRequest_def testLibrarian_def
        alwaysRequestVerifier_def ExactLengthChecker_def zeroKey_def errLoad_def)

text \<open>
  C2, amended. For a \<open>Find\<close> request that passes the request and key checks: if
  \<open>Load\<close> fails, the handler returns that error; if it gives a value, the response
  carries that value and no peers; if it gives none, the response carries no value
  and the peers \<open>Peak(key, num_peers)\<close> of the routing table, which is not an error.
  In each case the only change to the node is the record of the request.
\<close>

theorem Find_value_or_peers:
  assumes "checkRequestAndKey l c (Msg_Find rq) (find_Metadata rq) (find_Key rq) = Inr requesterID"
  shows "Find l c rq st =
     ((case documentSL_Load l (db st) (FromBytes (find_Key rq)) of
         Inl err \<Rightarrow> Inl err
       | Inr (Some v) \<Rightarrow>
           Inr \<lparr>findrp_Metadata = NewResponseMetadata (find_Metadata rq),
                findrp_Value = Some v, findrp_Peers = []\<rparr>
       | Inr None \<Rightarrow>
           Inr \<lparr>findrp_Metadata = NewResponseMetadata (find_Metadata rq),
                findrp_Value = None,
                findrp_Peers = ToAPIs (rt_Peak l (record_Request l (rt st) requesterID)
                                 (FromBytes (find_Key rq)) (unat (find_NumPeers rq)))\<rparr>),
      st\<lparr>rt := record_Request l (rt st) requesterID\<rparr>)"
  using assms by (simp add: Find_def split: sum.splits option.splits)

theorem Find_value_or_peers_witness:
  "Find testLibrarian None
      \<lparr>find_Metadata = testMetadata, find_Key = zeroKey, find_NumPeers = 1\<rparr> testNode
   = (Inr \<lparr>findrp_Metadata = \<lparr>rp_RequestId = RequestId testMetadata\<rparr>,
           findrp_Value = None, findrp_Peers = [ToAPI testPeer]\<rparr>, testNode)
   \<and> Find testLibrarian None
      \<lparr>find_Metadata = testMetadata, find_Key = zeroKey, find_NumPeers = 1\<rparr>
      (testNode\<lparr>db := [(0, testDocument)]\<rparr>)
   = (Inr \<lparr>findrp_Metadata = \<lparr>rp_RequestId = RequestId testMetadata\<rparr>,
           findrp_Value = Some testDocument, findrp_Peers = []\<rparr>,
      testNode\<lparr>db := [(0, testDocument)]\<rparr>)"
proof -
  let ?rq = "\<lparr>find_Metadata = testMetadata, find_Key = zeroKey, find_NumPeers = 1\<rparr>"
  have h: "checkRequestAndKey testLibrarian None (Msg_Find ?rq) (find_Metadata ?rq) (find_Key ?rq)
             = Inr (FromBytes (testHash (PubKey testMetadata)))"
    by (simp add: checkRequestAndKey_def checkRequest_def testLibrarian_def
          alwaysRequestVerifier_def ExactLengthChecker_def zeroKey_def)
  have z: "FromBytes zeroKey = 0"
    by (simp add: FromBytes_def zeroKey_def eval_nat_numeral)
  show ?thesis
    using Find_value_or_peers [OF h, of testNode]
          Find_value_or_peers [OF h, of "testNode\<lparr>db := [(0, testDocument)]\<rparr>"]
    by (simp add: z testLibrarian_def testNode_def testLoad_def testPeak_def testRecord_def
          NewResponseMetadata_def ToAPIs_def)
qed

subsection \<open>Get\<close>



subsection \<open>Put\<close>

text \<open>
  C4. For a \<open>Put\<close> request that passes the request and key/value checks, the handler
  launches a store and maps its outcome, in this order: if \<open>Stored\<close>, the response
  has operation \<open>STORED\<close> and as \<open>n_replicas\<close> the number of peers that responded
  (converted to 32 bits, which loses nothing below \<open>2^32\<close>); else if the value
  exists, operation \<open>LEFT_EXISTING\<close>; else, errored or exhausted, an error. \<open>Stored\<close>
  holds exactly when the number of replicas has reached \<open>NClosestResponses\<close>.
\<close>

theorem Put_maps_store_outcome:
  assumes "checkRequestAndKeyValue l c (Msg_Put rq) (put_Metadata rq) (put_Key rq) (put_Value rq)
             = Inr requesterID"
  shows
   "(storer_Store l (newStore l (selfID l) (FromBytes (put_Key rq)) (put_Value rq))
        (rt_Peak l (record_Request l (rt st) requesterID) (FromBytes (put_Key rq))
           (search_Concurrency
              (store_Search (newStore l (selfID l) (FromBytes (put_Key rq)) (put_Value rq)))))
       = Inr s
     \<longrightarrow>
       (Stored s \<longleftrightarrow> search_NClosestResponses (store_Search s) \<le> length (store_Responded s))
     \<and> (Stored s \<longrightarrow>
          fst (Put l c rq st) = Inr \<lparr>putrp_Metadata = NewResponseMetadata (put_Metadata rq),
                                     putrp_Operation = STORED,
                                     putrp_NReplicas = word_of_nat (length (store_Responded s))\<rparr>)
     \<and> (length (store_Responded s) < 2 ^ 32 \<longrightarrow>
          unat (word_of_nat (length (store_Responded s)) :: 32 word) = length (store_Responded s))
     \<and> (\<not> Stored s \<and> store_Exists s \<longrightarrow>
          fst (Put l c rq st) = Inr \<lparr>putrp_Metadata = NewResponseMetadata (put_Metadata rq),
                                     putrp_Operation = LEFT_EXISTING,
                                     putrp_NReplicas = word_of_nat (length (store_Responded s))\<rparr>)
     \<and> (\<not> Stored s \<and> \<not> store_Exists s \<and> store_Errored s \<longrightarrow>
          fst (Put l c rq st) = Inl (Err ''received error during search or store operations''))
     \<and> (\<not> Stored s \<and> \<not> store_Exists s \<and> \<not> store_Errored s \<and> store_Exhausted s \<longrightarrow>
          fst (Put l c rq st) = Inl (Err ''store for key exhausted''))
     \<and> (\<not> Stored s \<and> \<not> store_Exists s \<longrightarrow> (\<exists>err. fst (Put l c rq st) = Inl err)))
    \<and> (storer_Store l (newStore l (selfID l) (FromBytes (put_Key rq)) (put_Value rq))
        (rt_Peak l (record_Request l (rt st) requesterID) (FromBytes (put_Key rq))
           (search_Concurrency
              (store_Search (newStore l (selfID l) (FromBytes (put_Key rq)) (put_Value rq)))))
       = Inl err
     \<longrightarrow> fst (Put l c rq st) = Inl err)"
  using assms by (simp add: Put_def Let_def Stored_def unat_of_nat)

theorem Put_maps_store_outcome_witness:
  "fst (Put (testLibrarian\<lparr>storer_Store :=
               fixedStorer (testStore\<lparr>store_Responded := [testPeer, testPeer]\<rparr>)\<rparr>)
          None \<lparr>put_Metadata = testMetadata, put_Key = testKey, put_Value = testDocument\<rparr>
          testNode)
     = Inr \<lparr>putrp_Metadata = \<lparr>rp_RequestId = RequestId testMetadata\<rparr>,
            putrp_Operation = STORED, putrp_NReplicas = 2\<rparr>
   \<and> fst (Put (testLibrarian\<lparr>storer_Store :=
               fixedStorer (testStore\<lparr>store_Exists := True\<rparr>)\<rparr>)
          None \<lparr>put_Metadata = testMetadata, put_Key = testKey, put_Value = testDocument\<rparr>
          testNode)
     = Inr \<lparr>putrp_Metadata = \<lparr>rp_RequestId = RequestId testMetadata\<rparr>,
            putrp_Operation = LEFT_EXISTING, putrp_NReplicas = 0\<rparr>
   \<and> fst (Put testLibrarian
          None \<lparr>put_Metadata = testMetadata, put_Key = testKey, put_Value = testDocument\<rparr>
          testNode)
     = Inl (Err ''store for key exhausted'')"
proof -
  let ?rq = "\<lparr>put_Metadata = testMetadata, put_Key = testKey, put_Value = testDocument\<rparr>"
  let ?s1 = "testStore\<lparr>store_Responded := [testPeer, testPeer]\<rparr>"
  let ?s2 = "testStore\<lparr>store_Exists := True\<rparr>"
  have h: "checkRequestAndKeyValue (testLibrarian\<lparr>storer_Store := f\<rparr>) None (Msg_Put ?rq)
             (put_Metadata ?rq) (put_Key ?rq) (put_Value ?rq)
             = Inr (FromBytes (testHash (PubKey testMetadata)))" for f
    by (simp add: checkRequestAndKeyValue_def checkRequest_def testLibrarian_def
          alwaysRequestVerifier_def HashKeyValueChecker_def ExactLengthChecker_def
          testKey_def testHash_def testSerialize_def testDocument_def eval_nat_numeral)
  have h0: "checkRequestAndKeyValue testLibrarian None (Msg_Put ?rq)
             (put_Metadata ?rq) (put_Key ?rq) (put_Value ?rq)
             = Inr (FromBytes (testHash (PubKey testMetadata)))"
    by (simp add: checkRequestAndKeyValue_def checkRequest_def testLibrarian_def
          alwaysRequestVerifier_def HashKeyValueChecker_def ExactLengthChecker_def
          testKey_def testHash_def testSerialize_def testDocument_def eval_nat_numeral)
  show ?thesis
    using Put_maps_store_outcome [OF h, where st = testNode and s = ?s1]
          Put_maps_store_outcome [OF h, where st = testNode and s = ?s2]
          Put_maps_store_outcome [OF h0, where st = testNode and s = testStore]
    by (simp add: testLibrarian_def fixedStorer_def testStore_def testSearch_def
          NewResponseMetadata_def Stored_def)
qed

subsection \<open>Request verification\<close>

text \<open>
  C5, as stated, fails for \<open>Ping\<close>: its request carries no metadata and the handler
  verifies nothing. A librarian whose verifier rejects every request still answers
  a ping with \<open>pong\<close>.
\<close>

theorem Ping_unverified_counterexample:
  "rqv_Verify neverLibrarian None
      (Msg_Get \<lparr>get_Metadata = testMetadata, get_Key = zeroKey\<rparr>) testMetadata
     = Some (Err ''some verify error'')
   \<and> Ping neverLibrarian None () = Inr \<lparr>Message = ''pong''\<rparr>"
  by (simp add: Ping_def neverLibrarian_def neverRequestVerifier_def)

text \<open>
  C5, amended. In each of \<open>Introduce\<close>, \<open>Find\<close>, \<open>Store\<close>, \<open>Get\<close>, \<open>Put\<close> and
  \<open>Subscribe\<close> the request is verified before anything else: when the verifier
  rejects the request, the handler returns the verifier's error, gives no response
  and leaves the node (and the stream) untouched.
\<close>

theorem handlers_verify_first:
  "(rqv_Verify l c (Msg_Introduce irq) (intro_Metadata irq) = Some err
      \<longrightarrow> Introduce l c irq st = (Inl err, st))
   \<and> (rqv_Verify l c (Msg_Find frq) (find_Metadata frq) = Some err
      \<longrightarrow> Find l c frq st = (Inl err, st))
   \<and> (rqv_Verify l c (Msg_Store srq) (store_Metadata srq) = Some err
      \<longrightarrow> Store l c srq st = (Inl err, st))
   \<and> (rqv_Verify l c (Msg_Get grq) (get_Metadata grq) = Some err
      \<longrightarrow> Get l c grq st = (Inl err, st))
   \<and> (rqv_Verify l c (Msg_Put prq) (put_Metadata prq) = Some err
      \<longrightarrow> Put l c prq st = (Inl err, st))
   \<and> (rqv_Verify l c (Msg_Subscribe brq) (sub_Metadata brq) = Some err
      \<longrightarrow> Subscribe l filter_FromAPI from_Send c brq strm = (Some err, strm, False))"
  by (simp add: Introduce_def Find_def Store_def Get_def Put_def Subscribe_def
        checkRequest_def checkRequestAndKey_def checkRequestAndKeyValue_def)

theorem handlers_verify_first_witness:
  "Introduce neverLibrarian None
      \<lparr>intro_Metadata = testMetadata, intro_Self = ToAPI testPeer, intro_NumPeers = 1\<rparr> testNode
     = (Inl (Err ''some verify error''), testNode)
   \<and> Find neverLibrarian None
      \<lparr>find_Metadata = testMetadata, find_Key = zeroKey, find_NumPeers = 1\<rparr> testNode
     = (Inl (Err ''some verify error''), testNode)
   \<and> Store neverLibrarian None
      \<lparr>store_Metadata = testMetadata, store_Key = testKey, store_Value = testDocument\<rparr> testNode
     = (Inl (Err ''some verify error''), testNode)
   \<and> Get neverLibrarian None \<lparr>get_Metadata = testMetadata, get_Key = zeroKey\<rparr> testNode
     = (Inl (Err ''some verify error''), testNode)
   \<and> Put neverLibrarian None
      \<lparr>put_Metadata = testMetadata, put_Key = testKey, put_Value = testDocument\<rparr> testNode
     = (Inl (Err ''some verify error''), testNode)
   \<and> Subscribe neverLibrarian testFilterFromAPI testStreamSend None
      \<lparr>sub_Metadata = testMetadata,
        sub_Subscription = \<lparr>AuthorPublicKeys = [], ReaderPublicKeys = []\<rparr>\<rparr> []
     = (Some (Err ''some verify error''), [], False)"
  using handlers_verify_first [where l = neverLibrarian and c = None
      and err = "Err ''some verify error''" and st = testNode
      and irq = "\<lparr>intro_Metadata = testMetadata, intro_Self = ToAPI testPeer, intro_NumPeers = 1\<rparr>"
      and frq = "\<lparr>find_Metadata = testMetadata, find_Key = zeroKey, find_NumPeers = 1\<rparr>"
      and srq = "\<lparr>store_Metadata = testMetadata, store_Key = testKey, store_Value = testDocument\<rparr>"
      and grq = "\<lparr>get_Metadata = testMetadata, get_Key = zeroKey\<rparr>"
      and prq = "\<lparr>put_Metadata = testMetadata, put_Key = testKey, put_Value = testDocument\<rparr>"
      and brq = "\<lparr>sub_Metadata = testMetadata,
                  sub_Subscription = \<lparr>AuthorPublicKeys = [], ReaderPublicKeys = []\<rparr>\<rparr>"
      and filter_FromAPI = testFilterFromAPI and from_Send = testStreamSend and strm = "[]"]
  by (simp add: neverLibrarian_def neverRequestVerifier_def)

subsection \<open>Introduce\<close>















subsection \<open>Introduction response processor\<close>

lemma processPeer_Responded: "Responded (processPeer f s r pa) = Responded r"
  by (simp add: processPeer_def Let_def)

lemma foldl_processPeer_Responded: "Responded (foldl (processPeer f s) r pas) = Responded r"
  by (induction pas arbitrary: r) (simp_all add: processPeer_Responded)

lemma foldl_processPeer_rest:
  "NErrors (foldl (processPeer f s) r pas) = NErrors r
   \<and> FatalErr (foldl (processPeer f s) r pas) = FatalErr r"
  by (induction pas arbitrary: r) (simp_all add: processPeer_def Let_def)

lemma foldl_processPeer_Unqueried:
  "Unqueried (foldl (processPeer f s) r pas) k =
     (case Unqueried r k of
        Some p \<Rightarrow> Some p
      | None \<Rightarrow>
          if Responded r k \<noteq> None then None
          else map_option f (find (\<lambda>pa. s (FromBytes (PeerId pa)) = k) pas))"
proof (induction pas arbitrary: r)
  case Nil
  then show ?case by (simp split: option.splits)
next
  case (Cons pa pas)
  show ?case
    by (simp add: Cons.IH processPeer_Responded)
       (auto simp: processPeer_def Let_def split: option.splits)
qed

lemma testIDString_1: "testIDString (FromBytes [1]) = ''x''"
  by code_simp

lemma testIDString_2: "testIDString (FromBytes [2]) = ''xx''"
  by code_simp

lemma testIDString_3: "testIDString (FromBytes [3]) = ''xxx''"
  by code_simp

text \<open>
  C7. \<open>Process\<close> never fails; it inserts the responder \<open>rp.Self\<close> into \<open>Responded\<close>
  under its ID string, and for every key: a peer already in \<open>Unqueried\<close> stays as it
  is; a key in \<open>Responded\<close> (the responder included) is not added; any other key
  gets the first address of \<open>rp.Peers\<close> with that ID, if there is one. Hence the
  keys of \<open>Unqueried\<close> afterwards are the old ones and those IDs of \<open>rp.Peers\<close> that
  are not in \<open>Responded\<close>. The error count and the fatal error are unchanged.
\<close>

theorem Process_responded_unqueried:
  "fst (Process fromer idString rp result) = None
   \<and> Responded (snd (Process fromer idString rp result))
       = (Responded result)(idString (FromBytes (PeerId (introrp_Self rp)))
                              \<mapsto> fromer (introrp_Self rp))
   \<and> (\<forall>k. Unqueried (snd (Process fromer idString rp result)) k =
        (case Unqueried result k of
           Some p \<Rightarrow> Some p
         | None \<Rightarrow>
             if k \<in> dom (Responded (snd (Process fromer idString rp result))) then None
             else map_option fromer
                    (find (\<lambda>pa. idString (FromBytes (PeerId pa)) = k) (introrp_Peers rp))))
   \<and> dom (Unqueried (snd (Process fromer idString rp result)))
       = dom (Unqueried result)
         \<union> ((\<lambda>pa. idString (FromBytes (PeerId pa))) ` set (introrp_Peers rp)
            - dom (Responded (snd (Process fromer idString rp result))))
   \<and> NErrors (snd (Process fromer idString rp result)) = NErrors result
   \<and> FatalErr (snd (Process fromer idString rp result)) = FatalErr result"
proof -
  let ?r1 = "result\<lparr>Responded := (Responded result)(idString (FromBytes (PeerId (introrp_Self rp)))
                              \<mapsto> fromer (introrp_Self rp))\<rparr>"
  have P: "Process fromer idString rp result
            = (None, foldl (processPeer fromer idString) ?r1 (introrp_Peers rp))"
    by (simp add: Process_def Let_def)
  have R: "Responded (snd (Process fromer idString rp result)) = Responded ?r1"
    by (simp add: P foldl_processPeer_Responded)
  have U: "Unqueried (snd (Process fromer idString rp result)) k =
        (case Unqueried result k of
           Some p \<Rightarrow> Some p
         | None \<Rightarrow>
             if k \<in> dom (Responded ?r1) then None
             else map_option fromer
                    (find (\<lambda>pa. idString (FromBytes (PeerId pa)) = k) (introrp_Peers rp)))" for k
    by (auto simp: P foldl_processPeer_Unqueried dom_def split: option.splits)
  have D: "dom (Unqueried (snd (Process fromer idString rp result)))
       = dom (Unqueried result)
         \<union> ((\<lambda>pa. idString (FromBytes (PeerId pa))) ` set (introrp_Peers rp)
            - dom (Responded ?r1))"
  proof (rule set_eqI)
    fix k
    have F: "find (\<lambda>pa. idString (FromBytes (PeerId pa)) = k) (introrp_Peers rp) = None
             \<longleftrightarrow> k \<notin> (\<lambda>pa. idString (FromBytes (PeerId pa))) ` set (introrp_Peers rp)"
      by (auto simp: find_None_iff)
    show "k \<in> dom (Unqueried (snd (Process fromer idString rp result)))
          \<longleftrightarrow> k \<in> dom (Unqueried result)
                \<union> ((\<lambda>pa. idString (FromBytes (PeerId pa))) ` set (introrp_Peers rp)
                   - dom (Responded ?r1))"
      using F unfolding dom_def mem_Collect_eq U
      by (cases "Unqueried result k") (auto simp: dom_def)
  qed
  show ?thesis
    using U D by (simp add: R) (simp add: P foldl_processPeer_rest)
qed

theorem Process_responded_unqueried_witness:
  "Responded (snd (Process testFromAPI testIDString testIntroResponse testIntroResult)) ''x''
     = Some (testFromAPI paSelf)
   \<and> Unqueried (snd (Process testFromAPI testIDString testIntroResponse testIntroResult)) ''x''
     = None
   \<and> Unqueried (snd (Process testFromAPI testIDString testIntroResponse testIntroResult)) ''xx''
     = Some knownPeer
   \<and> Unqueried (snd (Process testFromAPI testIDString testIntroResponse testIntroResult)) ''xxx''
     = Some (testFromAPI paNew)"
  using Process_responded_unqueried [of testFromAPI testIDString testIntroResponse testIntroResult]
  by (simp add: testIntroResponse_def testIntroResult_def paSelf_def paKnown_def paNew_def
        testIDString_1 testIDString_2 testIDString_3)

subsection \<open>Subscribe\<close>



end
